theory Spec2Isabelle
  imports Main
begin

section \<open>Python values and exceptions\<close>

text \<open>
  The module \<^verbatim>\<open>fts/database.py\<close> raises and catches Python exceptions. Every exception
  the modelled code can meet is a value of \<open>exn\<close>; a function that may raise returns
  \<open>exn + 'a\<close> with \<open>Inl\<close> for the raised exception.

  The \<^verbatim>\<open>ValueError\<close>s differ only in their message, so the message is kept:
  \<^item> \<open>AmbiguousTruthValue\<close>: raised by pandas when a \<^verbatim>\<open>DataFrame\<close> is used as a truth
    value ("The truth value of a DataFrame is ambiguous. Use a.empty, a.bool(), a.item(),
    a.any() or a.all().");
  \<^item> \<open>NoDataForTable\<close>: line 118, "Cannot add the '...' table - there is no data to base
    it off of";
  \<^item> \<open>UnnamedIndex\<close>: line 121, "The dataframe to base the table off of must have a named
    index/indices and it does not";
  \<^item> \<open>CannotInsertColumn\<close>: raised by \<^verbatim>\<open>DataFrame.reset_index\<close> when an index level has
    the name of a column ("cannot insert ..., already exists");
  \<^item> \<open>NegativeTimeout\<close>: raised by \<^verbatim>\<open>Queue.get\<close> when its timeout is below zero
    ("'timeout' must be a non-negative number").
\<close>

datatype value_error =
    AmbiguousTruthValue
  | NoDataForTable
  | UnnamedIndex
  | CannotInsertColumn
  | NegativeTimeout

datatype exn =
    ValueError value_error
  | AttributeError
  | KeyError
  | TypeError
  | UnboundLocalError
  | OperationalError
  | ProgrammingError

text \<open>A label is a Python value that is a \<^verbatim>\<open>str\<close> or \<^verbatim>\<open>None\<close>: the name of an index level.\<close>

type_synonym label = "string option"

text \<open>What an f-string prints for a label: \<^verbatim>\<open>f"{None}"\<close> is the text \<^verbatim>\<open>None\<close>.\<close>

fun format_label :: "label \<Rightarrow> string" where
  "format_label None = ''None''"
| "format_label (Some name) = name"

text \<open>
  \<^verbatim>\<open>", ".join(names)\<close> raises \<^verbatim>\<open>TypeError\<close> on an item that is not a \<^verbatim>\<open>str\<close>. The result
  keeps the joined items as a list; \<open>comma_separated\<close> is the text.
\<close>

fun join_labels :: "label list \<Rightarrow> exn + string list" where
  "join_labels [] = Inr []"
| "join_labels (None # _) = Inl TypeError"
| "join_labels (Some name # rest) =
     (case join_labels rest of Inl e \<Rightarrow> Inl e | Inr names \<Rightarrow> Inr (name # names))"

fun comma_separated :: "string list \<Rightarrow> string" where
  "comma_separated [] = []"
| "comma_separated [name] = name"
| "comma_separated (name # rest) = name @ '', '' @ comma_separated rest"

text \<open>A loop whose body may raise stops at the first exception.\<close>

fun traverse :: "('a \<Rightarrow> exn + 'b) \<Rightarrow> 'a list \<Rightarrow> exn + 'b list" where
  "traverse f [] = Inr []"
| "traverse f (x # xs) =
     (case f x of
        Inl e \<Rightarrow> Inl e
      | Inr y \<Rightarrow> (case traverse f xs of Inl e \<Rightarrow> Inl e | Inr ys \<Rightarrow> Inr (y # ys)))"

section \<open>The pandas objects the module reads\<close>

text \<open>
  A column's dtype, by kind: signed and unsigned integers, booleans and floats (the numpy
  dtypes and the nullable, sparse and Arrow-backed dtypes that hold such values), complex
  numbers, \<^verbatim>\<open>object\<close>, strings, datetimes (with or without time zone), timedeltas, periods,
  intervals, and the categorical dtype. Of a \<^verbatim>\<open>CategoricalDtype\<close> the model keeps what
  \<^verbatim>\<open>is_bool_dtype\<close> reads from it: whether its categories are booleans.
\<close>

datatype dtype =
    Integer_dtype
  | Unsigned_dtype
  | Boolean_dtype
  | Floating_dtype
  | Complex_dtype
  | Object_dtype
  | String_dtype
  | Datetime_dtype
  | Timedelta_dtype
  | Period_dtype
  | Interval_dtype
  | Categorical_dtype bool

text \<open>
  The three predicates of \<^verbatim>\<open>pandas.api.types\<close>, each total on dtypes. \<^verbatim>\<open>is_integer_dtype\<close>
  and \<^verbatim>\<open>is_float_dtype\<close> go by the dtype's own kind, which for a categorical is \<^verbatim>\<open>object\<close>.
  \<^verbatim>\<open>is_bool_dtype\<close> looks into a categorical dtype: it is true of it when the categories are
  booleans, as for \<^verbatim>\<open>CategoricalDtype([True, False])\<close>.
\<close>

fun is_integer_dtype :: "dtype \<Rightarrow> bool" where
  "is_integer_dtype Integer_dtype = True"
| "is_integer_dtype Unsigned_dtype = True"
| "is_integer_dtype _ = False"

fun is_bool_dtype :: "dtype \<Rightarrow> bool" where
  "is_bool_dtype Boolean_dtype = True"
| "is_bool_dtype (Categorical_dtype boolean_categories) = boolean_categories"
| "is_bool_dtype _ = False"

fun is_float_dtype :: "dtype \<Rightarrow> bool" where
  "is_float_dtype Floating_dtype = True"
| "is_float_dtype _ = False"

text \<open>
  The index of a frame is a plain \<^verbatim>\<open>Index\<close> (one level: its name, which is \<^verbatim>\<open>None\<close> unless
  the caller named it, and its dtype; the default \<^verbatim>\<open>RangeIndex\<close> is \<open>Index None
  Integer_dtype\<close>) or a \<^verbatim>\<open>MultiIndex\<close>. pandas refuses a \<^verbatim>\<open>MultiIndex\<close> of no levels
  ("Must pass non-zero number of levels/codes"), so the first level stands apart from the
  list of the others.
\<close>

datatype index =
    Index label dtype
  | MultiIndex "label \<times> dtype" "(label \<times> dtype) list"

text \<open>\<^verbatim>\<open>index.name\<close>; a \<^verbatim>\<open>MultiIndex\<close> keeps its names in \<^verbatim>\<open>names\<close> and has the name \<^verbatim>\<open>None\<close>.\<close>

fun index_name :: "index \<Rightarrow> label" where
  "index_name (Index name _) = name"
| "index_name (MultiIndex _ _) = None"

text \<open>\<^verbatim>\<open>index.names\<close>: a \<^verbatim>\<open>FrozenList\<close> with one entry per level, \<^verbatim>\<open>[None]\<close> for an unnamed index.\<close>

fun index_names :: "index \<Rightarrow> label list" where
  "index_names (Index name _) = [name]"
| "index_names (MultiIndex level levels) = map fst (level # levels)"

text \<open>
  \<^verbatim>\<open>index.names is None\<close>: \<^verbatim>\<open>names\<close> is always a list object, and no list is \<^verbatim>\<open>None\<close>.
\<close>

definition is_None :: "label list \<Rightarrow> bool" where
  "is_None names = False"

text \<open>\<^verbatim>\<open>index.dtype\<close>; a \<^verbatim>\<open>MultiIndex\<close> holds tuples, its dtype is \<^verbatim>\<open>object\<close>.\<close>

fun index_dtype :: "index \<Rightarrow> dtype" where
  "index_dtype (Index _ d) = d"
| "index_dtype (MultiIndex _ _) = Object_dtype"

text \<open>
  \<^verbatim>\<open>index.dtypes[column_name]\<close>. Only a \<^verbatim>\<open>MultiIndex\<close> has the attribute \<^verbatim>\<open>dtypes\<close>, a series
  of the levels' dtypes keyed by the levels' names, in which an unnamed level is keyed
  \<^verbatim>\<open>level_0\<close>, \<^verbatim>\<open>level_1\<close>, ...: on a plain \<^verbatim>\<open>Index\<close> the attribute access raises
  \<^verbatim>\<open>AttributeError\<close>, and the key \<^verbatim>\<open>None\<close> raises \<^verbatim>\<open>KeyError\<close>. Where two levels share a
  name the first one is read.
\<close>

fun named_levels :: "(label \<times> dtype) list \<Rightarrow> (string \<times> dtype) list" where
  "named_levels [] = []"
| "named_levels ((None, _) # levels) = named_levels levels"
| "named_levels ((Some name, d) # levels) = (name, d) # named_levels levels"

fun index_dtypes :: "index \<Rightarrow> label \<Rightarrow> exn + dtype" where
  "index_dtypes (Index _ _) _ = Inl AttributeError"
| "index_dtypes (MultiIndex _ _) None = Inl KeyError"
| "index_dtypes (MultiIndex level levels) (Some name) =
     (case map_of (named_levels (level # levels)) name of
        None \<Rightarrow> Inl KeyError
      | Some d \<Rightarrow> Inr d)"

text \<open>
  A \<^verbatim>\<open>DataFrame\<close>: its index, its columns with their dtypes, and its rows. A row lists the
  values of the index levels and then those of the columns, which is the row
  \<^verbatim>\<open>reset_index(drop=False).values\<close> yields; \<open>None\<close> is a missing value. The module never
  looks into a value, so their type is a parameter.
\<close>

record 'v DataFrame =
  index :: index
  columns :: "(string \<times> dtype) list"
  rows :: "'v option list list"

text \<open>\<^verbatim>\<open>len(data)\<close>: the number of rows.\<close>

definition len :: "'v DataFrame \<Rightarrow> nat" where
  "len data = length (rows data)"

text \<open>
  \<^verbatim>\<open>bool(data)\<close>, which \<^verbatim>\<open>not data\<close> and \<^verbatim>\<open>if data\<close> evaluate. pandas defines \<^verbatim>\<open>__bool__\<close> of
  a \<^verbatim>\<open>DataFrame\<close> to raise \<^verbatim>\<open>ValueError\<close> whatever the frame holds, empty or not: a frame
  has no truth value (\<^verbatim>\<open>data.empty\<close> is the test for no rows).
\<close>

definition truth_value :: "'v DataFrame \<Rightarrow> exn + bool" where
  "truth_value data = Inl (ValueError AmbiguousTruthValue)"

text \<open>\<^verbatim>\<open>data.dtypes[column]\<close>.\<close>

definition column_dtype :: "'v DataFrame \<Rightarrow> string \<Rightarrow> exn + dtype" where
  "column_dtype data column =
     (case map_of (columns data) column of None \<Rightarrow> Inl KeyError | Some d \<Rightarrow> Inr d)"

text \<open>
  \<^verbatim>\<open>data.reset_index(drop=False).values\<close>: the index levels become the first columns. pandas
  raises \<^verbatim>\<open>ValueError\<close> when a level's name is already a column's.
\<close>

definition reset_index_values :: "'v DataFrame \<Rightarrow> exn + 'v option list list" where
  "reset_index_values data =
     (if list_ex (\<lambda>name. name \<in> set (map (Some \<circ> fst) (columns data)))
           (index_names (index data))
      then Inl (ValueError CannotInsertColumn)
      else Inr (rows data))"

section \<open>Type mapper\<close>

text \<open>Lines 187-200.\<close>

definition pandas_dtype_to_sqlite_type :: "dtype \<Rightarrow> string" where
  "pandas_dtype_to_sqlite_type d =
     (if is_integer_dtype d then ''INTEGER''
      else if is_bool_dtype d then ''INTEGER''
      else if is_float_dtype d then ''REAL''
      else ''TEXT'')"

section \<open>The storage engine\<close>

text \<open>
  The module builds SQL text and hands it to sqlite3. The model keeps each statement as the
  value the text denotes. A column definition is \<open>Column name type inline\<close>, printed
  \<^verbatim>\<open>"name" type\<close> or, with the inline key of line 139, \<^verbatim>\<open>name type PRIMARY KEY\<close>; the table
  constraint of line 149 is \<open>PrimaryKey names\<close>, printed \<^verbatim>\<open>PRIMARY KEY (a, b)\<close>. Names are
  taken to be SQL identifiers.
\<close>

datatype column_definition =
    Column string string bool
  | PrimaryKey "string list"

fun render :: "column_definition \<Rightarrow> string" where
  "render (Column name sqlite_type False) = ''\"'' @ name @ ''\" '' @ sqlite_type"
| "render (Column name sqlite_type True) = name @ '' '' @ sqlite_type @ '' PRIMARY KEY''"
| "render (PrimaryKey names) = ''PRIMARY KEY ('' @ comma_separated names @ '')''"

fun column_names_of :: "column_definition list \<Rightarrow> string list" where
  "column_names_of [] = []"
| "column_names_of (Column name _ _ # defs) = name # column_names_of defs"
| "column_names_of (PrimaryKey _ # defs) = column_names_of defs"

fun primary_key_of :: "column_definition list \<Rightarrow> string list" where
  "primary_key_of [] = []"
| "primary_key_of (Column name _ inline # defs) =
     (if inline then name # primary_key_of defs else primary_key_of defs)"
| "primary_key_of (PrimaryKey names # defs) = names @ primary_key_of defs"

text \<open>Whether a definition carries the inline \<^verbatim>\<open>PRIMARY KEY\<close> of line 139.\<close>

fun inline_key :: "column_definition \<Rightarrow> bool" where
  "inline_key (Column _ _ inline) = inline"
| "inline_key (PrimaryKey _) = False"

text \<open>A table is the definitions it was created with and its rows, in column order.\<close>

record 'v table =
  definitions :: "column_definition list"
  stored :: "'v option list list"

type_synonym 'v database = "string \<rightharpoonup> 'v table"

datatype log_entry =
    InvalidWriteRequest
  | FailedToWrite exn
  | FailedToClose

text \<open>
  The world outside the process: the database file at each path (a path never written to is
  the empty database sqlite3 creates there), the number of connections open, what the
  logger has received at level ERROR, and the faults to come: the n-th coming call of
  \<^verbatim>\<open>sqlite3.connect\<close> (of \<^verbatim>\<open>Connection.close\<close>) raises when the n-th entry of
  \<open>connect_failures\<close> (of \<open>close_failures\<close>) is \<open>True\<close>, and no call past the end
  of the list does.
\<close>

record 'v world =
  files :: "string \<Rightarrow> 'v database"
  open_connections :: nat
  connect_failures :: "bool list"
  close_failures :: "bool list"
  logged :: "log_entry list"

definition log_error :: "log_entry \<Rightarrow> 'v world \<Rightarrow> 'v world" where
  "log_error entry w = w\<lparr>logged := logged w @ [entry]\<rparr>"

text \<open>\<^verbatim>\<open>sqlite3.connect(path)\<close>: the connection is named by the path it is open on.\<close>

definition connect :: "string \<Rightarrow> 'v world \<Rightarrow> (exn + string) \<times> 'v world" where
  "connect path w =
     (case connect_failures w of
        [] \<Rightarrow> (Inr path, w\<lparr>open_connections := Suc (open_connections w)\<rparr>)
      | fails # later \<Rightarrow>
          if fails then (Inl OperationalError, w\<lparr>connect_failures := later\<rparr>)
          else (Inr path,
                w\<lparr>open_connections := Suc (open_connections w), connect_failures := later\<rparr>))"

text \<open>\<^verbatim>\<open>connection.close()\<close>: a close that raises leaves the connection open.\<close>

definition close :: "string \<Rightarrow> 'v world \<Rightarrow> (exn + unit) \<times> 'v world" where
  "close connection w =
     (case close_failures w of
        [] \<Rightarrow> (Inr (), w\<lparr>open_connections := open_connections w - 1\<rparr>)
      | fails # later \<Rightarrow>
          if fails then (Inl OperationalError, w\<lparr>close_failures := later\<rparr>)
          else (Inr (),
                w\<lparr>open_connections := open_connections w - 1, close_failures := later\<rparr>))"

text \<open>
  The \<^verbatim>\<open>finally\<close> block of lines 160-165 (and of lines 94-99) once \<^verbatim>\<open>connection\<close> holds a
  connection: close it, and log a failure to close instead of raising it.
\<close>

definition close_quietly :: "string \<Rightarrow> 'v world \<Rightarrow> 'v world" where
  "close_quietly connection w =
     (case close connection w of
        (Inl e, w') \<Rightarrow> log_error FailedToClose w'
      | (Inr _, w') \<Rightarrow> w')"

text \<open>
  \<^verbatim>\<open>CREATE TABLE IF NOT EXISTS table_name (definitions)\<close>: nothing when the table exists;
  otherwise the engine refuses a table with no column, with two columns of one name or with
  a key column it does not have, and creates the table empty.
\<close>

definition create_table_if_not_exists ::
  "string \<Rightarrow> column_definition list \<Rightarrow> 'v database \<Rightarrow> exn + 'v database" where
  "create_table_if_not_exists table_name defs db =
     (case db table_name of
        Some _ \<Rightarrow> Inr db
      | None \<Rightarrow>
          if column_names_of defs \<noteq> [] \<and> distinct (column_names_of defs)
             \<and> list_all (\<lambda>key. key \<in> set (column_names_of defs)) (primary_key_of defs)
          then Inr (db(table_name \<mapsto> \<lparr>definitions = defs, stored = []\<rparr>))
          else Inl OperationalError)"

text \<open>
  The key of a row: its values in the key columns. Two rows conflict when the table has a
  key, their keys are equal and no key value is missing (SQL's NULL equals nothing).
\<close>

definition key_of :: "column_definition list \<Rightarrow> 'v option list \<Rightarrow> 'v option list" where
  "key_of defs row =
     map snd (filter (\<lambda>(name, v). name \<in> set (primary_key_of defs))
                (zip (column_names_of defs) row))"

definition conflicts ::
  "column_definition list \<Rightarrow> 'v option list \<Rightarrow> 'v option list \<Rightarrow> bool" where
  "conflicts defs new old =
     (primary_key_of defs \<noteq> [] \<and> key_of defs new = key_of defs old
      \<and> list_all (\<lambda>v. v \<noteq> None) (key_of defs new))"

text \<open>\<^verbatim>\<open>INSERT OR IGNORE\<close>, row after row: a row that conflicts with a stored one is skipped.\<close>

fun insert_or_ignore ::
  "column_definition list \<Rightarrow> 'v option list list \<Rightarrow> 'v option list list
   \<Rightarrow> 'v option list list" where
  "insert_or_ignore defs kept [] = kept"
| "insert_or_ignore defs kept (row # others) =
     insert_or_ignore defs
       (if list_ex (conflicts defs row) kept then kept else kept @ [row]) others"

text \<open>
  The stored row of an inserted one: each column of the table takes the value given for it,
  and is missing when the statement does not name it.
\<close>

definition place :: "column_definition list \<Rightarrow> string list \<Rightarrow> 'v option list \<Rightarrow> 'v option list" where
  "place defs column_names row =
     map (\<lambda>name. case map_of (zip column_names row) name of None \<Rightarrow> None | Some v \<Rightarrow> v)
       (column_names_of defs)"

text \<open>
  \<^verbatim>\<open>cursor.executemany(insert_sql, rows)\<close> for
  \<^verbatim>\<open>INSERT OR IGNORE INTO "table_name" (column_names) VALUES (?, ...)\<close>. The engine refuses a
  table or a column that does not exist (\<^verbatim>\<open>OperationalError\<close>) and a row that has not one
  value per placeholder (\<^verbatim>\<open>ProgrammingError\<close>). The rows go in within one transaction, which
  the close that follows a failure rolls back: a failure stores nothing.
\<close>

definition executemany ::
  "string \<Rightarrow> string list \<Rightarrow> 'v option list list \<Rightarrow> 'v database \<Rightarrow> exn + 'v database" where
  "executemany table_name column_names tuples db =
     (case db table_name of
        None \<Rightarrow> Inl OperationalError
      | Some t \<Rightarrow>
          if list_ex (\<lambda>name. name \<notin> set (column_names_of (definitions t))) column_names
          then Inl OperationalError
          else if list_ex (\<lambda>row. length row \<noteq> length column_names) tuples
          then Inl ProgrammingError
          else Inr (db(table_name \<mapsto>
                 t\<lparr>stored := insert_or_ignore (definitions t) (stored t)
                               (map (place (definitions t) column_names) tuples)\<rparr>)))"

section \<open>Schema manager\<close>

text \<open>Lines 168-184: the catalog lookup in \<^verbatim>\<open>sqlite_master\<close>.\<close>

definition table_exists :: "string \<Rightarrow> string \<Rightarrow> 'v world \<Rightarrow> bool" where
  "table_exists connection table_name w = (files w connection table_name \<noteq> None)"

text \<open>
  Lines 130-150: the list \<^verbatim>\<open>column_definitions\<close>. The branch on \<^verbatim>\<open>data.index.names\<close> is the
  truth value of a list: true when the list is not empty.
\<close>

definition column_definitions :: "'v DataFrame \<Rightarrow> exn + column_definition list" where
  "column_definitions data =
     (case (if index_names (index data) \<noteq> []
            then traverse
                   (\<lambda>column_name.
                      case index_dtypes (index data) column_name of
                        Inl e \<Rightarrow> Inl e
                      | Inr d \<Rightarrow>
                          Inr (Column (format_label column_name)
                                 (pandas_dtype_to_sqlite_type d) False))
                   (index_names (index data))
            else Inr [Column (format_label (index_name (index data)))
                        (pandas_dtype_to_sqlite_type (index_dtype (index data))) True]) of
        Inl e \<Rightarrow> Inl e
      | Inr index_definitions \<Rightarrow>
          (case traverse
                  (\<lambda>column.
                     case column_dtype data column of
                       Inl e \<Rightarrow> Inl e
                     | Inr d \<Rightarrow> Inr (Column column (pandas_dtype_to_sqlite_type d) False))
                  (map fst (columns data)) of
             Inl e \<Rightarrow> Inl e
           | Inr data_definitions \<Rightarrow>
               if index_names (index data) \<noteq> []
               then (case join_labels (index_names (index data)) of
                       Inl e \<Rightarrow> Inl e
                     | Inr names \<Rightarrow>
                         Inr (index_definitions @ data_definitions @ [PrimaryKey names]))
               else Inr (index_definitions @ data_definitions)))"

text \<open>
  Lines 123-165, the body of \<^verbatim>\<open>add_table\<close> under the lock. \<^verbatim>\<open>connection\<close> is \<^verbatim>\<open>None\<close> until
  \<^verbatim>\<open>sqlite3.connect\<close> returns, so the \<^verbatim>\<open>finally\<close> block closes nothing when the connect
  raises. The lock is reentrant and the model has one thread: taking it changes nothing.
\<close>

definition create_table :: "string \<Rightarrow> string \<Rightarrow> 'v DataFrame \<Rightarrow> 'v world \<Rightarrow> (exn + unit) \<times> 'v world" where
  "create_table path table_name data w =
     (case connect path w of
        (Inl e, w1) \<Rightarrow> (Inl e, w1)
      | (Inr connection, w1) \<Rightarrow>
          if table_exists connection table_name w1
          then (Inr (), close_quietly connection w1)
          else
            (case column_definitions data of
               Inl e \<Rightarrow> (Inl e, close_quietly connection w1)
             | Inr defs \<Rightarrow>
                 (case create_table_if_not_exists table_name defs (files w1 connection) of
                    Inl e \<Rightarrow> (Inl e, close_quietly connection w1)
                  | Inr db \<Rightarrow>
                      (Inr (),
                       close_quietly connection
                         (w1\<lparr>files := (files w1)(connection := db)\<rparr>)))))"

text \<open>
  Lines 102-165. Line 117 evaluates \<^verbatim>\<open>not data\<close>, the truth value of the frame; line 120
  tests \<^verbatim>\<open>data.index.name is None and data.index.names is None\<close>.
\<close>

definition add_table :: "string \<Rightarrow> string \<Rightarrow> 'v DataFrame \<Rightarrow> 'v world \<Rightarrow> (exn + unit) \<times> 'v world" where
  "add_table path table_name data w =
     (case truth_value data of
        Inl e \<Rightarrow> (Inl e, w)
      | Inr truthy \<Rightarrow>
          if \<not> truthy then (Inl (ValueError NoDataForTable), w)
          else if index_name (index data) = None \<and> is_None (index_names (index data))
          then (Inl (ValueError UnnamedIndex), w)
          else create_table path table_name data w)"

section \<open>Batch writer\<close>

text \<open>
  Lines 89-99. \<^verbatim>\<open>connection\<close> is first assigned by \<^verbatim>\<open>sqlite3.connect\<close> inside the \<^verbatim>\<open>try\<close>:
  when the connect raises, the \<^verbatim>\<open>finally\<close> block reads a local that has no value and
  raises \<^verbatim>\<open>UnboundLocalError\<close>, which is the exception that leaves the function.
\<close>

definition insert_rows ::
  "string \<Rightarrow> string \<Rightarrow> string list \<Rightarrow> 'v option list list \<Rightarrow> 'v world
   \<Rightarrow> (exn + unit) \<times> 'v world" where
  "insert_rows path table_name column_names tuples w =
     (case connect path w of
        (Inl e, w1) \<Rightarrow> (Inl UnboundLocalError, w1)
      | (Inr connection, w1) \<Rightarrow>
          (case executemany table_name column_names tuples (files w1 connection) of
             Inl e \<Rightarrow> (Inl e, close_quietly connection w1)
           | Inr db \<Rightarrow>
               (Inr (),
                close_quietly connection (w1\<lparr>files := (files w1)(connection := db)\<rparr>))))"

text \<open>
  Lines 76-99, what \<^verbatim>\<open>write_to_db\<close> does once \<^verbatim>\<open>add_table\<close> has returned: the column list of
  line 76 is joined into the statement at line 78, the rows are read at lines 83-87 and
  inserted by lines 89-99.
\<close>

definition write_rows :: "string \<Rightarrow> string \<Rightarrow> 'v DataFrame \<Rightarrow> 'v world \<Rightarrow> (exn + unit) \<times> 'v world" where
  "write_rows path table_name data w =
     (case join_labels (index_names (index data) @ map (Some \<circ> fst) (columns data)) of
        Inl e \<Rightarrow> (Inl e, w)
      | Inr column_names \<Rightarrow>
          (case reset_index_values data of
             Inl e \<Rightarrow> (Inl e, w)
           | Inr tuples \<Rightarrow> insert_rows path table_name column_names tuples w))"

text \<open>
  Lines 60-99. The message of line 73 is logged at level DEBUG and is not kept.
\<close>

definition write_to_db :: "string \<Rightarrow> string \<Rightarrow> 'v DataFrame \<Rightarrow> 'v world \<Rightarrow> (exn + unit) \<times> 'v world" where
  "write_to_db path table_name data w =
     (case add_table path table_name data w of
        (Inl e, w1) \<Rightarrow> (Inl e, w1)
      | (Inr _, w1) \<Rightarrow> write_rows path table_name data w1)"

section \<open>Write coordinator\<close>

text \<open>Lines 19-23.\<close>

record 'v WriteRequest =
  request_path :: string
  request_table_name :: string
  request_data :: "'v DataFrame"

text \<open>What a producer may have put on the queue: a \<^verbatim>\<open>WriteRequest\<close> or any other object.\<close>

datatype 'v queue_item =
    Request "'v WriteRequest"
  | Other

text \<open>
  The stop signal and the queue belong to other threads. One entry of type \<open>poll\<close> is what
  one pass of the loop of line 40 meets: the stop signal set (\<open>StopSet\<close>), or the signal
  clear and then the dequeue of line 42 either timing out (\<open>Empty\<close>, after
  \<^verbatim>\<open>timeout_seconds\<close>) or returning an item (\<open>Got\<close>).
\<close>

datatype 'v poll =
    StopSet
  | Empty
  | Got "'v queue_item"

text \<open>
  Lines 39-58, with the function called at line 54 as the parameter \<open>writer\<close>. The loop runs
  until it meets the stop signal set; on a list of polls with no \<open>StopSet\<close> it has not
  returned when the list ends, which is the result \<open>None\<close>.
\<close>

type_synonym 'v writer =
  "string \<Rightarrow> string \<Rightarrow> 'v DataFrame \<Rightarrow> 'v world \<Rightarrow> (exn + unit) \<times> 'v world"

fun listen_loop ::
  "'v writer \<Rightarrow> 'v poll list \<Rightarrow> nat \<Rightarrow> 'v world \<Rightarrow> (nat \<times> 'v world) option" where
  "listen_loop writer [] write_count w = None"
| "listen_loop writer (StopSet # _) write_count w = Some (write_count, w)"
| "listen_loop writer (Empty # polls) write_count w = listen_loop writer polls write_count w"
| "listen_loop writer (Got Other # polls) write_count w =
     listen_loop writer polls write_count (log_error InvalidWriteRequest w)"
| "listen_loop writer (Got (Request request) # polls) write_count w =
     (case writer (request_path request) (request_table_name request)
             (request_data request) w of
        (Inl e, w') \<Rightarrow> listen_loop writer polls write_count (log_error (FailedToWrite e) w')
      | (Inr _, w') \<Rightarrow>
          listen_loop writer polls (write_count + len (request_data request)) w')"

text \<open>The loop as the module has it: line 54 calls \<^verbatim>\<open>write_to_db\<close>.\<close>

definition listen_and_write :: "'v poll list \<Rightarrow> 'v world \<Rightarrow> (nat \<times> 'v world) option" where
  "listen_and_write polls w = listen_loop write_to_db polls 0 w"




section \<open>The coordinator in time\<close>

text \<open>
  The stop signal is set and the queue is filled by other threads, and the loop meets both
  in time. Time is counted in ticks of the clock, from the call of \<^verbatim>\<open>listen_and_write\<close>;
  \<^verbatim>\<open>timeout_seconds\<close> is a number of ticks. Testing the signal and leaving the loop take no
  time; the loop spends its time waiting in \<^verbatim>\<open>Queue.get\<close> and handling what it dequeued.

  The stop signal is the tick at which it is set, \<open>None\<close> when it never is; once set it
  stays set.
\<close>

definition is_set :: "nat option \<Rightarrow> nat \<Rightarrow> bool" where
  "is_set stop_signal now = (case stop_signal of None \<Rightarrow> False | Some at \<Rightarrow> at \<le> now)"

text \<open>
  The queue is the items the producers put on it, in their order, each with the tick at
  which it is put and the time lines 49-57 then take on it: a write runs to its end and the
  module sets no timeout on it, so that time is whatever the store and the logger make it.
\<close>

record 'v arrival =
  arrives_at :: nat
  arriving :: "'v queue_item"
  handling :: nat

text \<open>
  \<^verbatim>\<open>write_queue.get(block=True, timeout=timeout)\<close> called at tick \<open>now\<close>, for a timeout that
  is not negative: the first item, once it is there, if that is at most \<open>timeout\<close> after
  the call; \<^verbatim>\<open>queue.Empty\<close> after \<open>timeout\<close> otherwise. The result is the item if any,
  the time waited and the queue left.
\<close>

fun get :: "'v arrival list \<Rightarrow> nat \<Rightarrow> nat \<Rightarrow> 'v arrival option \<times> nat \<times> 'v arrival list" where
  "get [] timeout now = (None, timeout, [])"
| "get (a # queue) timeout now =
     (if arrives_at a \<le> now + timeout then (Some a, arrives_at a - now, queue)
      else (None, timeout, a # queue))"

text \<open>
  One pass of the loop of line 40: the tick at which it tests the signal, what it meets, the
  time it waits in the dequeue of line 42 and the time it is busy with the item.
\<close>

record 'v pass =
  started :: nat
  met :: "'v poll"
  waited :: nat
  busy :: nat

text \<open>
  The passes of the loop from tick \<open>now\<close> on, the last of them the one that meets the
  signal set; \<open>None\<close> when there is no such pass and the loop never ends.
\<close>

partial_function (option) passes ::
  "nat option \<Rightarrow> 'v arrival list \<Rightarrow> nat \<Rightarrow> nat \<Rightarrow> 'v pass list option" where
  "passes stop_signal write_queue timeout now =
     (if is_set stop_signal now
      then Some [\<lparr>started = now, met = StopSet, waited = 0, busy = 0\<rparr>]
      else
        (case get write_queue timeout now of
           (None, wait, queue) \<Rightarrow>
             Option.bind (passes stop_signal queue timeout (now + wait))
               (\<lambda>later. Some (\<lparr>started = now, met = Empty, waited = wait, busy = 0\<rparr> # later))
         | (Some a, wait, queue) \<Rightarrow>
             Option.bind (passes stop_signal queue timeout (now + wait + handling a))
               (\<lambda>later. Some (\<lparr>started = now, met = Got (arriving a), waited = wait,
                                busy = handling a\<rparr> # later))))"

text \<open>
  Lines 25-58 in time, with the function called at line 54 as the parameter: the run of
  \<^verbatim>\<open>listen_and_write(stop_signal, write_queue, timeout_seconds)\<close>. When the signal is clear at
  the first test and the timeout is negative, the dequeue of line 42 raises \<^verbatim>\<open>ValueError\<close>,
  which line 46 does not catch. The result is \<open>None\<close> for a run that never returns, the
  exception that leaves the function, or the count, the world and the tick of the return.
\<close>

definition run ::
  "'v writer \<Rightarrow> nat option \<Rightarrow> 'v arrival list \<Rightarrow> int \<Rightarrow> 'v world
   \<Rightarrow> (exn + nat \<times> 'v world \<times> nat) option" where
  "run writer stop_signal write_queue timeout_seconds w =
     (if is_set stop_signal 0 then Some (Inr (0, w, 0))
      else if timeout_seconds < 0 then Some (Inl (ValueError NegativeTimeout))
      else
        (case passes stop_signal write_queue (nat timeout_seconds) 0 of
           None \<Rightarrow> None
         | Some ps \<Rightarrow>
             (case listen_loop writer (map met ps) 0 w of
                None \<Rightarrow> None
              | Some (write_count, w') \<Rightarrow> Some (Inr (write_count, w', started (last ps))))))"




section \<open>Inputs of the scenarios\<close>

text \<open>A world with no table in any file, no connection open and no fault to come.\<close>

definition fresh_world :: "string world" where
  "fresh_world =
     \<lparr>files = (\<lambda>path. Map.empty), open_connections = 0, connect_failures = [],
      close_failures = [], logged = []\<rparr>"

text \<open>
  The batch of the spec's scenario: one row, the key column \<^verbatim>\<open>path\<close> as the frame's index,
  the column \<^verbatim>\<open>op\<close>;
  \<^verbatim>\<open>pandas.DataFrame({"path": ["/a"], "op": ["create"]}).set_index("path")\<close>.
\<close>

definition events_frame :: "string DataFrame" where
  "events_frame =
     \<lparr>index = Index (Some ''path'') Object_dtype,
      columns = [(''op'', Object_dtype)],
      rows = [[Some ''/a'', Some ''create'']]\<rparr>"

definition events_request :: "string WriteRequest" where
  "events_request =
     \<lparr>request_path = ''t.db'', request_table_name = ''events'', request_data = events_frame\<rparr>"

text \<open>
  A batch with two named key columns, one other column and two rows;
  \<^verbatim>\<open>pandas.DataFrame({"path": ["/a", "/b"], "seen": ["1", "2"], "op": ["create", "delete"]}).set_index(["path", "seen"])\<close>.
\<close>

definition keyed_frame :: "string DataFrame" where
  "keyed_frame =
     \<lparr>index = MultiIndex (Some ''path'', Object_dtype) [(Some ''seen'', Object_dtype)],
      columns = [(''op'', Object_dtype)],
      rows = [[Some ''/a'', Some ''1'', Some ''create''],
              [Some ''/b'', Some ''2'', Some ''delete'']]\<rparr>"


text \<open>
  A batch that declares no key column: the default, unnamed index;
  \<^verbatim>\<open>pandas.DataFrame({"op": ["create"]})\<close>. Its row starts with the value of the index.
\<close>

definition unkeyed_frame :: "string DataFrame" where
  "unkeyed_frame =
     \<lparr>index = Index None Integer_dtype,
      columns = [(''op'', Object_dtype)],
      rows = [[Some ''0'', Some ''create'']]\<rparr>"

text \<open>A batch of no rows, with the columns of \<open>keyed_frame\<close>.\<close>

definition empty_frame :: "string DataFrame" where
  "empty_frame = keyed_frame\<lparr>rows := []\<rparr>"




section \<open>Properties\<close>

subsection \<open>The truth value of a frame\<close>

text \<open>
  Line 117 asks for the truth value of the frame, which pandas refuses to give: every call
  of \<open>add_table\<close> on a frame ends there, before the lock is taken, and so does every call
  of \<open>write_to_db\<close>, whose first step it is.
\<close>

lemma add_table_raises:
  "add_table path table_name data w = (Inl (ValueError AmbiguousTruthValue), w)"
  by (simp add: add_table_def truth_value_def)

lemma write_to_db_raises:
  "write_to_db path table_name data w = (Inl (ValueError AmbiguousTruthValue), w)"
  by (simp add: write_to_db_def add_table_raises)

subsection \<open>The loop of the coordinator\<close>

lemma listen_loop_timeouts:
  "listen_loop writer (replicate k Empty @ polls) n w = listen_loop writer polls n w"
  by (induction k) simp_all




subsection \<open>The passes of the loop in time\<close>





text \<open>With \<^verbatim>\<open>write_to_db\<close> at line 54 the run in time is the loop on the polls it meets.\<close>

lemma run_listen_and_write:
  "\<not> is_set stop_signal 0 \<Longrightarrow> 0 \<le> timeout_seconds
   \<Longrightarrow> passes stop_signal write_queue (nat timeout_seconds) 0 = Some ps
   \<Longrightarrow> run write_to_db stop_signal write_queue timeout_seconds w
       = map_option (\<lambda>(write_count, w'). Inr (write_count, w', started (last ps)))
           (listen_and_write (map met ps) w)"
  by (simp add: run_def listen_and_write_def split: option.splits)



subsection \<open>The column definitions\<close>

lemma index_names_truthy: "index_names i \<noteq> []"
  by (cases i) simp_all

lemma traverse_no_inline:
  "traverse (\<lambda>x. case g x of Inl e \<Rightarrow> Inl e | Inr d \<Rightarrow> Inr (Column (h x) (t d) False)) xs
     = Inr ys
   \<Longrightarrow> list_ex inline_key ys = False \<and> primary_key_of (ys @ zs) = primary_key_of zs"
  by (induction xs arbitrary: ys) (auto split: sum.splits)

lemma column_definitions_shape:
  assumes "column_definitions data = Inr defs"
  shows "\<exists>names. join_labels (index_names (index data)) = Inr names
           \<and> defs \<noteq> [] \<and> last defs = PrimaryKey names
           \<and> primary_key_of defs = names \<and> \<not> list_ex inline_key defs"
proof -
  let ?f = "\<lambda>column_name.
              case index_dtypes (index data) column_name of
                Inl e \<Rightarrow> Inl e
              | Inr d \<Rightarrow>
                  Inr (Column (format_label column_name) (pandas_dtype_to_sqlite_type d) False)"
  let ?g = "\<lambda>column.
              case column_dtype data column of
                Inl e \<Rightarrow> Inl e
              | Inr d \<Rightarrow> Inr (Column column (pandas_dtype_to_sqlite_type d) False)"
  from assms obtain ids dds names where
    ids: "traverse ?f (index_names (index data)) = Inr ids" and
    dds: "traverse ?g (map fst (columns data)) = Inr dds" and
    names: "join_labels (index_names (index data)) = Inr names" and
    defs: "defs = ids @ dds @ [PrimaryKey names]"
    by (auto simp: column_definitions_def index_names_truthy split: sum.splits)
  have "primary_key_of defs = names"
    using traverse_no_inline [OF ids, of "dds @ [PrimaryKey names]"]
      traverse_no_inline [OF dds, of "[PrimaryKey names]"] defs by simp
  moreover have "\<not> list_ex inline_key defs"
    using traverse_no_inline [OF ids] traverse_no_inline [OF dds] defs by simp
  ultimately show ?thesis using names defs by simp
qed

subsection \<open>Connections\<close>

lemma files_close_quietly: "files (close_quietly connection w) = files w"
  by (simp add: close_quietly_def close_def log_error_def split: list.splits)

lemma connect_cases:
  "connect path w = (r, w1)
   \<Longrightarrow> files w1 = files w \<and> logged w1 = logged w \<and> close_failures w1 = close_failures w
       \<and> (case r of
             Inl e \<Rightarrow> e = OperationalError \<and> open_connections w1 = open_connections w
           | Inr c \<Rightarrow> c = path \<and> open_connections w1 = Suc (open_connections w))"
  by (auto simp: connect_def split: list.splits if_splits)

lemma created_table_definitions:
  assumes "files w path' table_name' = None"
    and "files (snd (create_table path table_name data w)) path' table_name' = Some t"
  shows "path' = path \<and> table_name' = table_name
         \<and> column_definitions data = Inr (definitions t) \<and> stored t = []"
proof (cases "connect path w")
  case (Pair r w1)
  then have w1: "files w1 = files w" and r: "r = Inr path \<or> r = Inl OperationalError"
    using connect_cases [OF Pair] by (auto split: sum.splits)
  show ?thesis
    using assms Pair w1 r
    by (auto simp: create_table_def files_close_quietly table_exists_def
        create_table_if_not_exists_def split: sum.splits if_splits option.splits)
qed

subsection \<open>The code behind line 117\<close>

text \<open>
  No call on a frame comes past line 117, so what follows is about the rest of the module
  taken by itself: lines 123-165 (\<open>create_table\<close>) and lines 89-99 (\<open>insert_rows\<close>)
  entered directly.

  Lines 123-165 return with the connection closed whenever the close does not fail, and
  what they return or raise is not changed by a close that fails.
\<close>

lemma connect_close_failures:
  "connect path (w\<lparr>close_failures := faults\<rparr>)
     = (case connect path w of (r, w1) \<Rightarrow> (r, w1\<lparr>close_failures := faults\<rparr>))"
  by (simp add: connect_def split: list.splits)

lemma create_table_releases:
  assumes "close_failures w = []"
  shows "open_connections (snd (create_table path table_name data w)) = open_connections w"
proof (cases "connect path w")
  case (Pair r w1)
  from connect_cases [OF Pair] assms have "close_failures w1 = []" by simp
  then have
    "\<And>f. open_connections (close_quietly path (w1\<lparr>files := f\<rparr>)) = open_connections w1 - 1"
    "open_connections (close_quietly path w1) = open_connections w1 - 1"
    by (simp_all add: close_quietly_def close_def)
  with connect_cases [OF Pair] Pair show ?thesis
    by (auto simp: create_table_def split: sum.splits)
qed

lemma create_table_outcome:
  "fst (create_table path table_name data (w\<lparr>close_failures := faults\<rparr>))
     = fst (create_table path table_name data w)"
  by (simp add: create_table_def connect_close_failures table_exists_def
      split: prod.splits sum.splits)

lemma create_table_connect_error:
  "connect_failures w = True # later
   \<Longrightarrow> create_table path table_name data w
       = (Inl OperationalError, w\<lparr>connect_failures := later\<rparr>)"
  by (simp add: create_table_def connect_def)

text \<open>
  Lines 89-99 do not: when the connect of line 90 raises, the function is left with
  \<^verbatim>\<open>UnboundLocalError\<close> in place of the error of the connect.
\<close>

lemma insert_rows_unbound_connection:
  "connect_failures w = True # later
   \<Longrightarrow> insert_rows path table_name column_names tuples w
       = (Inl UnboundLocalError, w\<lparr>connect_failures := later\<rparr>)"
  by (simp add: insert_rows_def connect_def)

text \<open>
  On every other path lines 89-99 close the connection they opened, and a close that fails
  changes nothing in what they return or raise.
\<close>

lemma insert_rows_releases:
  assumes "close_failures w = []"
  shows "open_connections (snd (insert_rows path table_name column_names tuples w))
           = open_connections w"
proof (cases "connect path w")
  case (Pair r w1)
  from connect_cases [OF Pair] assms have "close_failures w1 = []" by simp
  then have
    "\<And>f. open_connections (close_quietly path (w1\<lparr>files := f\<rparr>)) = open_connections w1 - 1"
    "open_connections (close_quietly path w1) = open_connections w1 - 1"
    by (simp_all add: close_quietly_def close_def)
  with connect_cases [OF Pair] Pair show ?thesis
    by (auto simp: insert_rows_def split: sum.splits)
qed

lemma insert_rows_outcome:
  "fst (insert_rows path table_name column_names tuples (w\<lparr>close_failures := faults\<rparr>))
     = fst (insert_rows path table_name column_names tuples w)"
  by (simp add: insert_rows_def connect_close_failures split: prod.splits sum.splits)

text \<open>
  A second run of lines 123-165 for a table that exists changes no file, whatever the
  frame: the table keeps the definitions of the run that created it.
\<close>

lemma create_table_exists:
  assumes "files w path table_name = Some t"
  shows "files (snd (create_table path table_name data w)) = files w"
proof (cases "connect path w")
  case (Pair r w1)
  with connect_cases [OF Pair] assms show ?thesis
    by (auto simp: create_table_def table_exists_def files_close_quietly split: sum.splits)
qed

lemma create_table_creates:
  assumes "fst (create_table path table_name data w) = Inr ()"
  shows "files (snd (create_table path table_name data w)) path table_name \<noteq> None"
proof (cases "connect path w")
  case (Pair r w1)
  with connect_cases [OF Pair] assms show ?thesis
    by (auto simp: create_table_def table_exists_def files_close_quietly
        create_table_if_not_exists_def split: sum.splits if_splits option.splits)
qed

lemma create_table_twice:
  assumes "create_table path table_name first w = (Inr (), w1)"
  shows "files (snd (create_table path table_name second w1)) = files w1"
proof -
  from assms create_table_creates [of path table_name first w]
  obtain t where "files w1 path table_name = Some t" by auto
  then show ?thesis by (rule create_table_exists)
qed

text \<open>
  Rows whose key values are all present, inserted a second time, are all ignored: a second
  run of lines 89-99 with the same rows changes no file.
\<close>

lemma insert_or_ignore_keeps:
  "old \<in> set kept \<Longrightarrow> old \<in> set (insert_or_ignore defs kept new)"
proof (induction new arbitrary: kept)
  case Nil
  then show ?case by simp
next
  case (Cons row new)
  have "old \<in> set (if list_ex (conflicts defs row) kept then kept else kept @ [row])"
    using Cons.prems by simp
  from Cons.IH [OF this] show ?case by simp
qed

lemma insert_or_ignore_stored:
  assumes "primary_key_of defs \<noteq> []"
    and "list_all (\<lambda>row. list_all (\<lambda>v. v \<noteq> None) (key_of defs row)) new"
  shows "list_all (\<lambda>row. list_ex (conflicts defs row) (insert_or_ignore defs kept new)) new"
  using assms(2)
proof (induction new arbitrary: kept)
  case Nil
  then show ?case by simp
next
  case (Cons row new)
  let ?kept = "if list_ex (conflicts defs row) kept then kept else kept @ [row]"
  have "list_ex (conflicts defs row) ?kept"
    using Cons.prems assms(1) by (auto simp: conflicts_def list_ex_iff)
  then obtain old where old: "old \<in> set ?kept" "conflicts defs row old"
    unfolding list_ex_iff by blast
  have "old \<in> set (insert_or_ignore defs ?kept new)"
    using old(1) by (rule insert_or_ignore_keeps)
  with old(2) have "list_ex (conflicts defs row) (insert_or_ignore defs ?kept new)"
    by (intro list_ex_iff [THEN iffD2] bexI)
  moreover have
    "list_all (\<lambda>row. list_ex (conflicts defs row) (insert_or_ignore defs ?kept new)) new"
    using Cons by simp
  ultimately show ?case by simp
qed

lemma insert_or_ignore_all_conflict:
  "list_all (\<lambda>row. list_ex (conflicts defs row) kept) new
   \<Longrightarrow> insert_or_ignore defs kept new = kept"
  by (induction new arbitrary: kept) auto

lemma insert_or_ignore_twice:
  assumes "primary_key_of defs \<noteq> []"
    and "list_all (\<lambda>row. list_all (\<lambda>v. v \<noteq> None) (key_of defs row)) new"
  shows "insert_or_ignore defs (insert_or_ignore defs kept new) new
           = insert_or_ignore defs kept new"
  using insert_or_ignore_all_conflict [OF insert_or_ignore_stored [OF assms]] .

lemma executemany_twice:
  assumes "executemany table_name column_names tuples db = Inr db1"
    and "db table_name = Some t"
    and "primary_key_of (definitions t) \<noteq> []"
    and "list_all (\<lambda>row. list_all (\<lambda>v. v \<noteq> None)
           (key_of (definitions t) (place (definitions t) column_names row))) tuples"
  shows "executemany table_name column_names tuples db1 = Inr db1"
proof -
  let ?new = "map (place (definitions t) column_names) tuples"
  have keyed: "list_all (\<lambda>row. list_all (\<lambda>v. v \<noteq> None) (key_of (definitions t) row)) ?new"
    using assms(4) by (simp add: list_all_iff)
  from assms(1,2) have
    db1: "db1 = db(table_name \<mapsto>
                  t\<lparr>stored := insert_or_ignore (definitions t) (stored t) ?new\<rparr>)" and
    ok: "\<not> list_ex (\<lambda>name. name \<notin> set (column_names_of (definitions t))) column_names"
      "\<not> list_ex (\<lambda>row. length row \<noteq> length column_names) tuples"
    by (auto simp: executemany_def split: if_splits)
  show ?thesis
    using ok insert_or_ignore_twice [OF assms(3) keyed, of "stored t"]
    by (simp add: executemany_def db1)
qed

lemma insert_rows_files:
  assumes "insert_rows path table_name column_names tuples w = (Inr (), w1)"
  shows "\<exists>db1. executemany table_name column_names tuples (files w path) = Inr db1
           \<and> files w1 = (files w)(path := db1)"
proof (cases "connect path w")
  case (Pair r w')
  with connect_cases [OF Pair] assms show ?thesis
    by (auto simp: insert_rows_def files_close_quietly split: sum.splits)
qed

lemma insert_rows_twice:
  assumes first: "insert_rows path table_name column_names tuples w = (Inr (), w1)"
    and t: "files w path table_name = Some t"
    and key: "primary_key_of (definitions t) \<noteq> []"
    and keyed: "list_all (\<lambda>row. list_all (\<lambda>v. v \<noteq> None)
                  (key_of (definitions t) (place (definitions t) column_names row))) tuples"
  shows "files (snd (insert_rows path table_name column_names tuples w1)) = files w1"
proof -
  from insert_rows_files [OF first] obtain db1 where
    db1: "executemany table_name column_names tuples (files w path) = Inr db1" and
    w1: "files w1 = (files w)(path := db1)" by blast
  have again: "executemany table_name column_names tuples (files w1 path) = Inr db1"
    using executemany_twice [OF db1 t key keyed] w1 by simp
  show ?thesis
  proof (cases "connect path w1")
    case (Pair r w')
    with connect_cases [OF Pair] again w1 show ?thesis
      by (auto simp: insert_rows_def files_close_quietly split: sum.splits)
  qed
qed

text \<open>
  On the batch with two key columns: the table is created, the rows go in once and the
  second insertion adds none; every connection is closed again.
\<close>

lemma keyed_batch_behind_the_checks:
  "(case create_table ''t.db'' ''events'' keyed_frame fresh_world of
      (created, w1) \<Rightarrow>
        (case insert_rows ''t.db'' ''events'' [''path'', ''seen'', ''op'']
                (rows keyed_frame) w1 of
           (first, w2) \<Rightarrow>
             (case insert_rows ''t.db'' ''events'' [''path'', ''seen'', ''op'']
                     (rows keyed_frame) w2 of
                (second, w3) \<Rightarrow>
                  created = Inr () \<and> first = Inr () \<and> second = Inr ()
                  \<and> map_option stored (files w3 ''t.db'' ''events'')
                      = Some [[Some ''/a'', Some ''1'', Some ''create''],
                              [Some ''/b'', Some ''2'', Some ''delete'']]
                  \<and> open_connections w3 = 0)))"
  by (simp add: create_table_def insert_rows_def connect_def table_exists_def fresh_world_def
      keyed_frame_def column_definitions_def column_dtype_def pandas_dtype_to_sqlite_type_def
      create_table_if_not_exists_def close_quietly_def close_def executemany_def place_def
      conflicts_def key_of_def)

text \<open>
  On the batch of the spec's scenario, whose index has one level: line 135 reads
  \<^verbatim>\<open>data.index.dtypes\<close>, which a plain \<^verbatim>\<open>Index\<close> does not have.
\<close>

lemma single_key_batch_behind_the_checks:
  "create_table ''t.db'' ''events'' events_frame fresh_world = (Inl AttributeError, fresh_world)"
  by (simp add: create_table_def connect_def table_exists_def fresh_world_def events_frame_def
      column_definitions_def close_quietly_def close_def)



subsection \<open>The claims\<close>

text \<open>
  C1. The scenario of the spec, as the code runs it: the request for table \<^verbatim>\<open>events\<close> of
  \<^verbatim>\<open>t.db\<close> with the one row ("/a", "create") is dequeued, the dequeue then times out any
  number \<open>k\<close> of times, and the stop signal is set. The run returns 0, not 1: the write
  raised at line 117 and was logged, and the store holds no table \<^verbatim>\<open>events\<close>. Behind
  line 117 the batch fares no better: its index has one level, and lines 123-165 raise on it
  at line 135 and create no table.
\<close>

theorem scenario_writes_nothing:
  "listen_and_write (Got (Request events_request) # replicate k Empty @ [StopSet]) fresh_world
     = Some (0, fresh_world\<lparr>logged := [FailedToWrite (ValueError AmbiguousTruthValue)]\<rparr>)
   \<and> files (fresh_world\<lparr>logged := [FailedToWrite (ValueError AmbiguousTruthValue)]\<rparr>)
        ''t.db'' ''events'' = None
   \<and> create_table ''t.db'' ''events'' events_frame fresh_world
       = (Inl AttributeError, fresh_world)"
  by (simp add: listen_and_write_def write_to_db_raises listen_loop_timeouts log_error_def
      single_key_batch_behind_the_checks)
    (simp add: fresh_world_def)




text \<open>
  C3. Fault isolation, as the code runs it: two requests are dequeued one after the other
  and the stop signal is set. The first write raises, the loop goes on and nothing but the
  count leaves the run; but the second write raises as well, whatever the second batch is
  (line 117 again), so the batch after a failed one is neither written nor counted: the run
  returns 0 and leaves every file as it was.
\<close>

theorem second_batch_not_written:
  "listen_and_write [Got (Request first), Got (Request second), StopSet] w
     = Some (0, w\<lparr>logged := logged w @ [FailedToWrite (ValueError AmbiguousTruthValue),
                                         FailedToWrite (ValueError AmbiguousTruthValue)]\<rparr>)"
  by (simp add: listen_and_write_def write_to_db_raises log_error_def)

text \<open>
  C4. Empty-batch rejection, as the code runs it: a batch of two rows does not pass the
  check of line 117. \<open>add_table\<close> raises the \<^verbatim>\<open>ValueError\<close> of the frame's truth value on
  it, the error it raises on the batch of no rows too, and creates no table.
\<close>

theorem nonempty_batch_rejected:
  "len keyed_frame = 2
   \<and> add_table ''t.db'' ''events'' keyed_frame fresh_world
       = (Inl (ValueError AmbiguousTruthValue), fresh_world)
   \<and> len empty_frame = 0
   \<and> add_table ''t.db'' ''events'' empty_frame fresh_world
       = (Inl (ValueError AmbiguousTruthValue), fresh_world)"
  by (simp add: add_table_raises len_def keyed_frame_def empty_frame_def)

text \<open>
  C5. Unkeyed-batch rejection, as the code runs it: for the batch with the default, unnamed
  index the test of line 120 is false (its \<^verbatim>\<open>names\<close> is the list \<^verbatim>\<open>[None]\<close>, not \<^verbatim>\<open>None\<close>), so
  line 121 cannot raise for it; \<open>add_table\<close> fails on it with the error of line 117, the
  same error it fails with on a batch that has two key columns.
\<close>

theorem unkeyed_batch_not_told_apart:
  "index_names (index unkeyed_frame) = [None]
   \<and> (index_name (index unkeyed_frame) = None \<and> is_None (index_names (index unkeyed_frame)))
       = False
   \<and> add_table ''t.db'' ''events'' unkeyed_frame fresh_world
       = (Inl (ValueError AmbiguousTruthValue), fresh_world)
   \<and> add_table ''t.db'' ''events'' keyed_frame fresh_world
       = (Inl (ValueError AmbiguousTruthValue), fresh_world)"
  by (simp add: add_table_raises is_None_def unkeyed_frame_def)

text \<open>
  C6. Idempotent table creation, as the code runs it: \<open>add_table\<close> called twice for table
  \<^verbatim>\<open>events\<close>, with the keyed batch of the spec's scenario and then with the batch of two
  key columns, raises both times and leaves no table, where the claim has exactly one.
\<close>

theorem ensure_table_twice_creates_nothing:
  "(case add_table ''t.db'' ''events'' events_frame fresh_world of
      (first, w1) \<Rightarrow>
        (case add_table ''t.db'' ''events'' keyed_frame w1 of
           (second, w2) \<Rightarrow>
             first = Inl (ValueError AmbiguousTruthValue)
             \<and> second = Inl (ValueError AmbiguousTruthValue)
             \<and> files w2 ''t.db'' ''events'' = None))"
  by (simp add: add_table_raises fresh_world_def)

text \<open>
  C7. Idempotent row insertion, as the code runs it: \<open>write_to_db\<close> called twice with the
  batch of the spec's scenario, whose key value is present, raises both times and stores no
  row (there is no table to hold one), where the claim has one copy of each row.
\<close>

theorem write_twice_stores_nothing:
  "list_all (list_all (\<lambda>v. v \<noteq> None)) (rows events_frame)
   \<and> (case write_to_db ''t.db'' ''events'' events_frame fresh_world of
        (first, w1) \<Rightarrow>
          (case write_to_db ''t.db'' ''events'' events_frame w1 of
             (second, w2) \<Rightarrow>
               first = Inl (ValueError AmbiguousTruthValue)
               \<and> second = Inl (ValueError AmbiguousTruthValue)
               \<and> files w2 ''t.db'' ''events'' = None))"
  by (simp add: write_to_db_raises fresh_world_def events_frame_def)

text \<open>
  C8. The type mapper is total (a HOL function of the dtype, with no exception in its
  result type) and returns INTEGER for the integer dtypes, INTEGER for the boolean ones,
  REAL for the floating one and TEXT for every other dtype. The boolean dtypes are those
  \<^verbatim>\<open>is_bool_dtype\<close> accepts: the boolean dtype itself and a categorical dtype whose categories
  are booleans; any other categorical dtype is among the others and gives TEXT. No dtype is
  of two of the three kinds, so the order of the tests of lines 194-198 decides nothing.
\<close>

theorem type_mapper_table:
  "pandas_dtype_to_sqlite_type d =
     (case d of
        Integer_dtype \<Rightarrow> ''INTEGER''
      | Unsigned_dtype \<Rightarrow> ''INTEGER''
      | Boolean_dtype \<Rightarrow> ''INTEGER''
      | Categorical_dtype True \<Rightarrow> ''INTEGER''
      | Floating_dtype \<Rightarrow> ''REAL''
      | Complex_dtype \<Rightarrow> ''TEXT''
      | Object_dtype \<Rightarrow> ''TEXT''
      | String_dtype \<Rightarrow> ''TEXT''
      | Datetime_dtype \<Rightarrow> ''TEXT''
      | Timedelta_dtype \<Rightarrow> ''TEXT''
      | Period_dtype \<Rightarrow> ''TEXT''
      | Interval_dtype \<Rightarrow> ''TEXT''
      | Categorical_dtype False \<Rightarrow> ''TEXT'')
   \<and> pandas_dtype_to_sqlite_type d =
       (if is_integer_dtype d \<or> is_bool_dtype d then ''INTEGER''
        else if is_float_dtype d then ''REAL'' else ''TEXT'')
   \<and> (is_integer_dtype d \<and> is_bool_dtype d) = False
   \<and> (is_integer_dtype d \<and> is_float_dtype d) = False
   \<and> (is_bool_dtype d \<and> is_float_dtype d) = False"
  by (cases d) (auto simp: pandas_dtype_to_sqlite_type_def)


text \<open>
  C10. For every frame the list \<^verbatim>\<open>data.index.names\<close> is not empty, so lines 130-150 take the
  branch of line 133 and never the inline key of lines 137-139: a list of definitions they
  build has no inline key and ends with the clause \<^verbatim>\<open>PRIMARY KEY (names)\<close> over the names of
  the index, which is the table's key; and a table that lines 123-165 create has the
  definitions built from the frame.
\<close>

theorem composite_key_branch:
  "index_names (index data) \<noteq> []
   \<and> (\<forall>defs. column_definitions data = Inr defs \<longrightarrow>
        (\<exists>names. join_labels (index_names (index data)) = Inr names
           \<and> defs \<noteq> [] \<and> last defs = PrimaryKey names
           \<and> render (last defs) = ''PRIMARY KEY ('' @ comma_separated names @ '')''
           \<and> primary_key_of defs = names \<and> \<not> list_ex inline_key defs))
   \<and> (\<forall>path table_name w t.
        files w path table_name = None
        \<longrightarrow> files (snd (create_table path table_name data w)) path table_name = Some t
        \<longrightarrow> column_definitions data = Inr (definitions t)
            \<and> (\<exists>names. join_labels (index_names (index data)) = Inr names
                  \<and> last (definitions t) = PrimaryKey names
                  \<and> primary_key_of (definitions t) = names))"
proof -
  have shape:
    "\<exists>names. join_labels (index_names (index data)) = Inr names
       \<and> defs \<noteq> [] \<and> last defs = PrimaryKey names
       \<and> render (last defs) = ''PRIMARY KEY ('' @ comma_separated names @ '')''
       \<and> primary_key_of defs = names \<and> \<not> list_ex inline_key defs"
    if "column_definitions data = Inr defs" for defs
    using column_definitions_shape [OF that] by auto
  have created:
    "column_definitions data = Inr (definitions t)
     \<and> (\<exists>names. join_labels (index_names (index data)) = Inr names
           \<and> last (definitions t) = PrimaryKey names
           \<and> primary_key_of (definitions t) = names)"
    if "files w path table_name = None"
      and "files (snd (create_table path table_name data w)) path table_name = Some t"
    for path table_name and w :: "'a world" and t
  proof -
    from created_table_definitions [OF that]
    have built: "column_definitions data = Inr (definitions t)" by simp
    from column_definitions_shape [OF built] built show ?thesis by auto
  qed
  show ?thesis
    using index_names_truthy [of "index data"] shape created by blast
qed

theorem composite_key_branch_witness:
  "index_names (index keyed_frame) \<noteq> []
   \<and> column_definitions keyed_frame
       = Inr [Column ''path'' ''TEXT'' False, Column ''seen'' ''TEXT'' False,
              Column ''op'' ''TEXT'' False, PrimaryKey [''path'', ''seen'']]
   \<and> join_labels (index_names (index keyed_frame)) = Inr [''path'', ''seen'']
   \<and> render (PrimaryKey [''path'', ''seen'']) = ''PRIMARY KEY (path, seen)''
   \<and> files fresh_world ''t.db'' ''events'' = None
   \<and> files (snd (create_table ''t.db'' ''events'' keyed_frame fresh_world)) ''t.db'' ''events''
       = Some \<lparr>definitions =
                 [Column ''path'' ''TEXT'' False, Column ''seen'' ''TEXT'' False,
                  Column ''op'' ''TEXT'' False, PrimaryKey [''path'', ''seen'']],
               stored = []\<rparr>"
  using composite_key_branch [of keyed_frame]
  by (simp add: keyed_frame_def fresh_world_def column_definitions_def column_dtype_def
      pandas_dtype_to_sqlite_type_def create_table_def connect_def table_exists_def
      create_table_if_not_exists_def close_quietly_def close_def)

end
